theory Spec2Isabelle
  imports Main "HOL-Library.Word"
begin

section \<open>The platform: pin levels, pin modes, the millisecond counter\<close>

text \<open>
  \<^verbatim>\<open>digitalRead\<close> returns \<^verbatim>\<open>HIGH\<close> or \<^verbatim>\<open>LOW\<close>; \<^verbatim>\<open>pinMode\<close> is called with
  \<^verbatim>\<open>INPUT\<close> or \<^verbatim>\<open>INPUT_PULLUP\<close>; \<^verbatim>\<open>millis()\<close> returns an \<^verbatim>\<open>unsigned long\<close>,
  a 32-bit counter that wraps around.
\<close>

datatype pin_level = LOW | HIGH

datatype pin_mode = INPUT | INPUT_PULLUP

type_synonym ulong = "32 word"

text \<open>
  Storing the result of \<^verbatim>\<open>digitalRead\<close> in a \<^verbatim>\<open>bool\<close> converts it: \<^verbatim>\<open>HIGH\<close> (1) is
  \<^verbatim>\<open>true\<close>, \<^verbatim>\<open>LOW\<close> (0) is \<^verbatim>\<open>false\<close>.
\<close>

fun level_to_bool :: "pin_level \<Rightarrow> bool" where
  "level_to_bool LOW = False"
| "level_to_bool HIGH = True"

text \<open>
  An \<^verbatim>\<open>int\<close> is a signed machine integer, \<open>'w word\<close> read with \<open>sint\<close>; its width
  \<open>LENGTH('w)\<close> is 16 on the AVR boards and 32 on the 32-bit ones. Where the code compares
  an \<^verbatim>\<open>unsigned long\<close> with an \<^verbatim>\<open>int\<close>, C converts the \<^verbatim>\<open>int\<close> to
  \<^verbatim>\<open>unsigned long\<close>: the value modulo \<open>2 ^ 32\<close>, which is sign extension for a narrower
  \<^verbatim>\<open>int\<close>.
\<close>

definition int_to_ulong :: "'w::len word \<Rightarrow> ulong" where
  "int_to_ulong d = scast d"

section \<open>The class \<^verbatim>\<open>LoknoButton\<close>\<close>

text \<open>The private fields, in the order of their declaration; \<open>'i\<close> is the type of \<^verbatim>\<open>int\<close>.\<close>

record 'i LoknoButton =
  pin :: 'i
  debounce_time :: 'i
  active_low :: bool
  pressed :: bool
  changed :: bool
  last_state :: bool
  pullup_enable :: bool
  last_debounce_time :: ulong

text \<open>The constructor: it stores the configuration and touches no hardware.\<close>

definition LoknoButton ::
    "'w::len word \<Rightarrow> 'w word \<Rightarrow> bool \<Rightarrow> bool \<Rightarrow> 'w word LoknoButton" where
  "LoknoButton pin_arg debounce_time_arg pullup_enable_arg active_low_arg =
     \<lparr>pin = pin_arg, debounce_time = debounce_time_arg, active_low = active_low_arg,
      pressed = False, changed = False, last_state = level_to_bool HIGH,
      pullup_enable = pullup_enable_arg, last_debounce_time = 0\<rparr>"

text \<open>
  \<^verbatim>\<open>begin()\<close>. Its first statement is the call of \<^verbatim>\<open>pinMode\<close>, whose arguments are
  \<open>begin_pinMode\<close>. The rest updates the object from what \<^verbatim>\<open>digitalRead\<close> returned
  (\<open>level\<close>) and what \<^verbatim>\<open>millis()\<close> returned (\<open>now\<close>). The name \<open>begin\<close> is a keyword of
  Isabelle, hence \<open>begin_op\<close>.
\<close>

definition begin_pinMode :: "'i LoknoButton \<Rightarrow> 'i \<times> pin_mode" where
  "begin_pinMode s = (pin s, if pullup_enable s then INPUT_PULLUP else INPUT)"

definition begin_op :: "pin_level \<Rightarrow> ulong \<Rightarrow> 'i LoknoButton \<Rightarrow> 'i LoknoButton" where
  "begin_op level now s =
     (let s1 = s\<lparr>pressed := level_to_bool level\<rparr>;
          s2 = (if active_low s1 then s1\<lparr>pressed := \<not> pressed s1\<rparr> else s1);
          s3 = s2\<lparr>last_state := pressed s2\<rparr>;
          s4 = s3\<lparr>changed := False\<rparr>
      in s4\<lparr>last_debounce_time := now\<rparr>)"

text \<open>
  \<^verbatim>\<open>read()\<close>. It calls \<^verbatim>\<open>digitalRead\<close> once (\<open>level\<close>) and \<^verbatim>\<open>millis()\<close> up to twice:
  \<open>t_mark\<close> is what the call in the statement that restarts the window returns (it is
  made only when the sample differs from \<open>last_state\<close>), \<open>t_test\<close> is what the call in
  the comparison returns. The comparison is between an \<^verbatim>\<open>unsigned long\<close> and the
  \<^verbatim>\<open>int\<close> field \<open>debounce_time\<close>, so it is unsigned, and it is strict.
\<close>

definition read ::
    "pin_level \<Rightarrow> ulong \<Rightarrow> ulong \<Rightarrow> 'w::len word LoknoButton \<Rightarrow> 'w word LoknoButton" where
  "read level t_mark t_test s =
     (let curr_state0 = level_to_bool level;
          curr_state = (if active_low s then \<not> curr_state0 else curr_state0);
          s1 = (if curr_state \<noteq> last_state s then s\<lparr>last_debounce_time := t_mark\<rparr> else s);
          s2 = (if t_test - last_debounce_time s1 > int_to_ulong (debounce_time s1)
                then (if curr_state \<noteq> pressed s1
                      then s1\<lparr>pressed := curr_state, changed := True\<rparr>
                      else s1\<lparr>changed := False\<rparr>)
                else s1\<lparr>changed := False\<rparr>)
      in s2\<lparr>last_state := curr_state\<rparr>)"

text \<open>The \<^verbatim>\<open>const\<close> accessors; \<^verbatim>\<open>releasedFor\<close> calls \<^verbatim>\<open>millis()\<close> (\<open>now\<close>).\<close>

definition isPressed :: "'i LoknoButton \<Rightarrow> bool" where
  "isPressed s = pressed s"

definition releasedFor :: "'w::len word \<Rightarrow> ulong \<Rightarrow> 'w word LoknoButton \<Rightarrow> bool" where
  "releasedFor ms now s =
     (if \<not> pressed s \<and> now - last_debounce_time s \<ge> int_to_ulong ms then True else False)"

definition wasPressed :: "'i LoknoButton \<Rightarrow> bool" where
  "wasPressed s = (changed s \<and> pressed s)"

definition wasReleased :: "'i LoknoButton \<Rightarrow> bool" where
  "wasReleased s = (changed s \<and> \<not> pressed s)"

section \<open>Calls of the public methods\<close>

text \<open>
  A call of a public method after construction, with what the platform returned to it.
  \<open>exec\<close> is the object after the call: the four accessors are declared \<^verbatim>\<open>const\<close> and
  assign no field. \<open>result\<close> is the value the call returns (\<^verbatim>\<open>void\<close> methods return
  none).
\<close>

datatype 'i call =
    Call_begin pin_level ulong
  | Call_read pin_level ulong ulong
  | Call_isPressed
  | Call_releasedFor 'i ulong
  | Call_wasPressed
  | Call_wasReleased

fun exec :: "'w::len word call \<Rightarrow> 'w word LoknoButton \<Rightarrow> 'w word LoknoButton" where
  "exec (Call_begin level now) s = begin_op level now s"
| "exec (Call_read level t_mark t_test) s = read level t_mark t_test s"
| "exec Call_isPressed s = s"
| "exec (Call_releasedFor ms now) s = s"
| "exec Call_wasPressed s = s"
| "exec Call_wasReleased s = s"

fun result :: "'w::len word call \<Rightarrow> 'w word LoknoButton \<Rightarrow> bool option" where
  "result (Call_begin level now) s = None"
| "result (Call_read level t_mark t_test) s = None"
| "result Call_isPressed s = Some (isPressed s)"
| "result (Call_releasedFor ms now) s = Some (releasedFor ms now s)"
| "result Call_wasPressed s = Some (wasPressed s)"
| "result Call_wasReleased s = Some (wasReleased s)"

text \<open>
  A run of the main loop: the polls, one after the other. \<open>polls\<close> is the object after
  the last one, \<open>trace\<close> the objects after each one.
\<close>

type_synonym poll = "pin_level \<times> ulong \<times> ulong"

fun polls :: "poll list \<Rightarrow> 'w::len word LoknoButton \<Rightarrow> 'w word LoknoButton" where
  "polls [] s = s"
| "polls ((level, t_mark, t_test) # ps) s = polls ps (read level t_mark t_test s)"

fun trace :: "poll list \<Rightarrow> 'w::len word LoknoButton \<Rightarrow> 'w word LoknoButton list" where
  "trace [] s = []"
| "trace ((level, t_mark, t_test) # ps) s =
     read level t_mark t_test s # trace ps (read level t_mark t_test s)"

section \<open>The quantities a poll works with\<close>

text \<open>
  Names for three values of \<open>read\<close>: the sample after the polarity inversion
  (\<^verbatim>\<open>curr_state\<close>), the start of the debounce window after the statement that may restart
  it, and the elapsed time that is compared with \<open>debounce_time\<close>. \<open>read_eq\<close> below
  states \<open>read\<close> with them.
\<close>

definition raw_sample :: "pin_level \<Rightarrow> 'i LoknoButton \<Rightarrow> bool" where
  "raw_sample level s = (if active_low s then \<not> level_to_bool level else level_to_bool level)"

definition window_start :: "pin_level \<Rightarrow> ulong \<Rightarrow> 'i LoknoButton \<Rightarrow> ulong" where
  "window_start level t_mark s =
     (if raw_sample level s \<noteq> last_state s then t_mark else last_debounce_time s)"

definition elapsed :: "pin_level \<Rightarrow> ulong \<Rightarrow> ulong \<Rightarrow> 'i LoknoButton \<Rightarrow> ulong" where
  "elapsed level t_mark t_test s = t_test - window_start level t_mark s"

section \<open>Scenarios\<close>

text \<open>
  Concrete objects for the examples: \<^verbatim>\<open>LoknoButton(2, 50, false, false)\<close> with a
  16-bit \<^verbatim>\<open>int\<close>; after \<^verbatim>\<open>begin()\<close> at time 0 with the pin low; after a poll at
  time 10 that reads high (the window starts); after a poll at time 61 that still reads
  high (51 ms later). The last is \<^verbatim>\<open>LoknoButton(2, 50, true, true)\<close>, active low.
\<close>

definition demo_button :: "16 word LoknoButton" where
  "demo_button = LoknoButton 2 50 False False"

definition demo_released :: "16 word LoknoButton" where
  "demo_released = begin_op LOW 0 demo_button"

definition demo_rising :: "16 word LoknoButton" where
  "demo_rising = read HIGH 10 10 demo_released"

definition demo_pressed :: "16 word LoknoButton" where
  "demo_pressed = read HIGH 61 61 demo_rising"

definition demo_active_low :: "16 word LoknoButton" where
  "demo_active_low = LoknoButton 2 50 True True"

text \<open>
  The same button when the counter is about to wrap: \<^verbatim>\<open>begin()\<close> with the pin low
  296 ms before the wrap, then a poll that reads high 10 ms before it.
\<close>

definition demo_wrap_rising :: "16 word LoknoButton" where
  "demo_wrap_rising =
     read HIGH 4294967286 4294967286 (begin_op LOW 4294967000 demo_button)"

section \<open>Basic facts\<close>

lemma read_eq:
  "read level t_mark t_test s =
     (if int_to_ulong (debounce_time s) < elapsed level t_mark t_test s
         \<and> raw_sample level s \<noteq> pressed s
      then s\<lparr>pressed := raw_sample level s, changed := True,
             last_state := raw_sample level s,
             last_debounce_time := window_start level t_mark s\<rparr>
      else s\<lparr>changed := False, last_state := raw_sample level s,
             last_debounce_time := window_start level t_mark s\<rparr>)"
  unfolding read_def raw_sample_def window_start_def elapsed_def Let_def
  by (cases "active_low s"; cases "level_to_bool level"; cases "last_state s";
      cases "pressed s") simp_all

lemma read_changed:
  "changed (read level t_mark t_test s) =
     (int_to_ulong (debounce_time s) < elapsed level t_mark t_test s
        \<and> raw_sample level s \<noteq> pressed s)"
  by (simp add: read_eq)

lemma read_pressed:
  "pressed (read level t_mark t_test s) =
     (if int_to_ulong (debounce_time s) < elapsed level t_mark t_test s
         \<and> raw_sample level s \<noteq> pressed s
      then raw_sample level s else pressed s)"
  by (simp add: read_eq)

lemma read_last_state: "last_state (read level t_mark t_test s) = raw_sample level s"
  by (simp add: read_eq)

lemma read_last_debounce_time:
  "last_debounce_time (read level t_mark t_test s) = window_start level t_mark s"
  by (simp add: read_eq)

lemma read_config:
  "pin (read level t_mark t_test s) = pin s"
  "debounce_time (read level t_mark t_test s) = debounce_time s"
  "active_low (read level t_mark t_test s) = active_low s"
  "pullup_enable (read level t_mark t_test s) = pullup_enable s"
  by (simp_all add: read_eq)

lemma raw_sample_read: "raw_sample l (read level t_mark t_test s) = raw_sample l s"
  by (simp add: raw_sample_def read_config)

lemma uint_int_to_ulong: "uint (int_to_ulong d) = sint d mod 2 ^ 32"
  unfolding int_to_ulong_def scast_eq uint_word_of_int by simp

lemma sint_bounds_32:
  fixes d :: "'w::len word"
  assumes "LENGTH('w) \<le> 32"
  shows "- (2 ^ 31) \<le> sint d" and "sint d < 2 ^ 31"
proof -
  have le: "(2::int) ^ (LENGTH('w) - 1) \<le> 2 ^ 31"
    using assms by (intro power_increasing) auto
  show "sint d < 2 ^ 31"
    using sint_lt [of d] le by linarith
  show "- (2 ^ 31) \<le> sint d"
    using sint_ge [of d] le by linarith
qed

lemma uint_int_to_ulong_nonneg:
  fixes d :: "'w::len word"
  assumes "LENGTH('w) \<le> 32" and "0 \<le> sint d"
  shows "uint (int_to_ulong d) = sint d"
  using sint_bounds_32 [OF assms(1), of d] assms(2)
  by (simp add: uint_int_to_ulong)

lemma uint_int_to_ulong_neg:
  fixes d :: "'w::len word"
  assumes "LENGTH('w) \<le> 32" and "sint d < 0"
  shows "uint (int_to_ulong d) = sint d + 2 ^ 32"
proof -
  have "sint d mod 2 ^ 32 = (sint d + 2 ^ 32) mod 2 ^ 32"
    by simp
  also have "\<dots> = sint d + 2 ^ 32"
    using sint_bounds_32 [OF assms(1), of d] assms(2) by (intro mod_pos_pos_trivial) auto
  finally show ?thesis by (simp add: uint_int_to_ulong)
qed

lemma read_outside_guard:
  assumes "\<not> int_to_ulong (debounce_time s) < elapsed level t_mark t_test s"
  shows "pressed (read level t_mark t_test s) = pressed s"
    and "\<not> changed (read level t_mark t_test s)"
  using assms by (simp_all add: read_pressed read_changed)

lemma begin_op_eq:
  "begin_op level now s =
     s\<lparr>pressed := raw_sample level s, last_state := raw_sample level s,
       changed := False, last_debounce_time := now\<rparr>"
  by (cases "active_low s") (simp_all add: begin_op_def raw_sample_def Let_def)

subsection \<open>The scenarios, evaluated\<close>

lemma demo_button_eq:
  "demo_button = \<lparr>pin = 2, debounce_time = 50, active_low = False, pressed = False,
     changed = False, last_state = True, pullup_enable = False, last_debounce_time = 0\<rparr>"
  by (simp add: demo_button_def LoknoButton_def)

lemma demo_released_eq:
  "demo_released = \<lparr>pin = 2, debounce_time = 50, active_low = False, pressed = False,
     changed = False, last_state = False, pullup_enable = False, last_debounce_time = 0\<rparr>"
  by (simp add: demo_released_def demo_button_eq begin_op_eq raw_sample_def)

lemma demo_rising_eq:
  "demo_rising = \<lparr>pin = 2, debounce_time = 50, active_low = False, pressed = False,
     changed = False, last_state = True, pullup_enable = False, last_debounce_time = 10\<rparr>"
  by (simp add: demo_rising_def demo_released_eq read_eq raw_sample_def window_start_def
      elapsed_def int_to_ulong_def)

lemma demo_pressed_eq:
  "demo_pressed = \<lparr>pin = 2, debounce_time = 50, active_low = False, pressed = True,
     changed = True, last_state = True, pullup_enable = False, last_debounce_time = 10\<rparr>"
  by (simp add: demo_pressed_def demo_rising_eq read_eq raw_sample_def window_start_def
      elapsed_def int_to_ulong_def)

lemma demo_active_low_eq:
  "demo_active_low = \<lparr>pin = 2, debounce_time = 50, active_low = True, pressed = False,
     changed = False, last_state = True, pullup_enable = True, last_debounce_time = 0\<rparr>"
  by (simp add: demo_active_low_def LoknoButton_def)

lemma demo_wrap_rising_eq:
  "demo_wrap_rising = \<lparr>pin = 2, debounce_time = 50, active_low = False, pressed = False,
     changed = False, last_state = True, pullup_enable = False,
     last_debounce_time = 4294967286\<rparr>"
  by (simp add: demo_wrap_rising_def demo_button_eq begin_op_eq read_eq raw_sample_def
      window_start_def elapsed_def int_to_ulong_def)

lemmas read_simps =
  read_changed read_pressed read_last_state read_last_debounce_time
  raw_sample_def window_start_def elapsed_def int_to_ulong_def

text \<open>
  C7. In every state of the object, reachable or not, \<open>wasPressed\<close> is true exactly when
  \<open>changed\<close> and \<open>pressed\<close> both are, \<open>wasReleased\<close> exactly when \<open>changed\<close> is true and
  \<open>pressed\<close> false; so the two are never true together, and both are false when
  \<open>changed\<close> is false.
\<close>

theorem wasPressed_wasReleased_exclusive:
  "wasPressed s = (changed s \<and> pressed s)
   \<and> wasReleased s = (changed s \<and> \<not> pressed s)
   \<and> \<not> (wasPressed s \<and> wasReleased s)
   \<and> (\<not> changed s \<longrightarrow> \<not> wasPressed s \<and> \<not> wasReleased s)"
  by (simp add: wasPressed_def wasReleased_def)

theorem wasPressed_wasReleased_exclusive_witness:
  "\<not> changed demo_released \<and> \<not> wasPressed demo_released \<and> \<not> wasReleased demo_released
   \<and> wasPressed demo_pressed \<and> \<not> wasReleased demo_pressed"
  using wasPressed_wasReleased_exclusive [of demo_released]
    wasPressed_wasReleased_exclusive [of demo_pressed]
  by (simp add: demo_released_eq demo_pressed_eq)

text \<open>
  C5. After \<open>begin\<close>, \<open>pressed\<close> and \<open>last_state\<close> both hold the one reading taken,
  inverted when \<open>active_low\<close> is set; \<open>changed\<close> is false; \<open>last_debounce_time\<close> is the
  clock value read. With \<open>active_low\<close> set and a low reading, \<open>isPressed\<close> is true at
  once and \<open>wasPressed\<close> and \<open>wasReleased\<close> are false.
\<close>

theorem begin_seeds_state:
  "pressed (begin_op level now s)
      = (if active_low s then \<not> level_to_bool level else level_to_bool level)
   \<and> last_state (begin_op level now s)
      = (if active_low s then \<not> level_to_bool level else level_to_bool level)
   \<and> \<not> changed (begin_op level now s)
   \<and> last_debounce_time (begin_op level now s) = now
   \<and> (active_low s \<and> level = LOW \<longrightarrow>
        isPressed (begin_op level now s) \<and> \<not> wasPressed (begin_op level now s)
        \<and> \<not> wasReleased (begin_op level now s))"
  by (simp add: begin_op_eq raw_sample_def isPressed_def wasPressed_def wasReleased_def)

theorem begin_seeds_state_witness:
  "active_low demo_active_low
   \<and> isPressed (begin_op LOW 1000 demo_active_low)
   \<and> \<not> wasPressed (begin_op LOW 1000 demo_active_low)
   \<and> \<not> wasReleased (begin_op LOW 1000 demo_active_low)
   \<and> last_state (begin_op LOW 1000 demo_active_low)
   \<and> last_debounce_time (begin_op LOW 1000 demo_active_low) = 1000"
  using begin_seeds_state [of LOW 1000 demo_active_low]
  by (simp add: demo_active_low_eq)

text \<open>
  C4. A call of \<open>read\<close> sets \<open>last_debounce_time\<close> to the clock value exactly when the
  sample, after the inversion, differs from \<open>last_state\<close>, whatever the comparison with
  \<open>debounce_time\<close> then gives; otherwise it keeps it. Every call ends with the sample
  in \<open>last_state\<close>.
\<close>

theorem read_restarts_window:
  "(raw_sample level s \<noteq> last_state s \<longrightarrow>
      last_debounce_time (read level t_mark t_test s) = t_mark)
   \<and> (raw_sample level s = last_state s \<longrightarrow>
      last_debounce_time (read level t_mark t_test s) = last_debounce_time s)
   \<and> last_state (read level t_mark t_test s) = raw_sample level s"
  by (simp add: read_last_debounce_time read_last_state window_start_def)

theorem read_restarts_window_witness:
  "(raw_sample LOW demo_rising \<noteq> last_state demo_rising
    \<and> last_debounce_time (read LOW 30 30 demo_rising) = 30
    \<and> \<not> changed (read LOW 30 30 demo_rising)
    \<and> \<not> last_state (read LOW 30 30 demo_rising))
   \<and> (raw_sample HIGH demo_rising = last_state demo_rising
    \<and> last_debounce_time (read HIGH 30 30 demo_rising) = 10
    \<and> last_state (read HIGH 30 30 demo_rising))"
  using read_restarts_window [of LOW demo_rising 30 30]
    read_restarts_window [of HIGH demo_rising 30 30]
  by (simp add: demo_rising_eq read_simps)

text \<open>
  C2. A poll at which the time elapsed since the start of the debounce window is less
  than \<open>debounce_time\<close> leaves \<open>pressed\<close> as it was and sets \<open>changed\<close> to false,
  whatever the sample.
\<close>

theorem read_inside_window:
  fixes s :: "'w::len word LoknoButton"
  assumes "LENGTH('w) \<le> 32"
    and "uint (elapsed level t_mark t_test s) < sint (debounce_time s)"
  shows "pressed (read level t_mark t_test s) = pressed s
    \<and> \<not> changed (read level t_mark t_test s)"
proof -
  have "0 \<le> sint (debounce_time s)"
    using assms(2) uint_ge_0 [of "elapsed level t_mark t_test s"] by linarith
  then have "uint (int_to_ulong (debounce_time s)) = sint (debounce_time s)"
    using assms(1) by (rule uint_int_to_ulong_nonneg [rotated])
  then have "\<not> int_to_ulong (debounce_time s) < elapsed level t_mark t_test s"
    using assms(2) by (simp add: word_less_def)
  then show ?thesis
    by (simp add: read_outside_guard)
qed

theorem read_inside_window_witness:
  "LENGTH(16) \<le> 32
   \<and> uint (elapsed HIGH 40 40 demo_rising) < sint (debounce_time demo_rising)
   \<and> raw_sample HIGH demo_rising \<noteq> pressed demo_rising
   \<and> pressed (read HIGH 40 40 demo_rising) = pressed demo_rising
   \<and> \<not> changed (read HIGH 40 40 demo_rising)"
  using read_inside_window
      [where level = HIGH and t_mark = 40 and t_test = 40 and s = demo_rising]
  by (simp add: demo_rising_eq read_simps)

lemma read_unconfirmed_keeps_pressed:
  "\<not> changed (read level t_mark t_test s) \<Longrightarrow>
     pressed (read level t_mark t_test s) = pressed s"
  by (simp add: read_changed read_pressed)

lemma polls_keep_pressed:
  "\<forall>x \<in> set (trace ps s). \<not> changed x \<Longrightarrow> pressed (polls ps s) = pressed s"
proof (induction ps arbitrary: s)
  case Nil
  show ?case by simp
next
  case (Cons p ps)
  obtain level t_mark t_test where p: "p = (level, t_mark, t_test)"
    by (cases p) auto
  let ?s' = "read level t_mark t_test s"
  from Cons.prems p have here: "\<not> changed ?s'" and rest: "\<forall>x \<in> set (trace ps ?s'). \<not> changed x"
    by simp_all
  have "pressed (polls ps ?s') = pressed ?s'"
    using rest by (rule Cons.IH)
  also have "\<dots> = pressed s"
    using here by (rule read_unconfirmed_keeps_pressed)
  finally show ?case
    by (simp add: p)
qed

lemma read_guard_nonneg:
  fixes s :: "'w::len word LoknoButton"
  assumes "LENGTH('w) \<le> 32" and "0 \<le> sint (debounce_time s)"
  shows "int_to_ulong (debounce_time s) < elapsed level t_mark t_test s
     \<longleftrightarrow> sint (debounce_time s) < uint (elapsed level t_mark t_test s)"
  using uint_int_to_ulong_nonneg [OF assms] by (simp add: word_less_def)

text \<open>
  C1, as the code has it. With \<open>debounce_time\<close> not negative and a sample that differs
  from \<open>pressed\<close>, a poll sets \<open>changed\<close> exactly when the time elapsed since the start
  of the window is strictly greater than \<open>debounce_time\<close>; at an elapsed time equal to
  \<open>debounce_time\<close> it does not confirm yet and \<open>pressed\<close> stays. When it confirms,
  \<open>pressed\<close> takes the sample, and \<open>isPressed\<close> returns it after any further polls none
  of which sets \<open>changed\<close>.
\<close>

theorem read_confirms_after_interval:
  fixes s :: "'w::len word LoknoButton"
  assumes "LENGTH('w) \<le> 32"
    and "0 \<le> sint (debounce_time s)"
    and "raw_sample level s \<noteq> pressed s"
  shows "(changed (read level t_mark t_test s)
            \<longleftrightarrow> sint (debounce_time s) < uint (elapsed level t_mark t_test s))
    \<and> pressed (read level t_mark t_test s)
         = (if sint (debounce_time s) < uint (elapsed level t_mark t_test s)
            then raw_sample level s else pressed s)
    \<and> (sint (debounce_time s) < uint (elapsed level t_mark t_test s) \<longrightarrow>
         isPressed (read level t_mark t_test s) = raw_sample level s
         \<and> (\<forall>ps. (\<forall>x \<in> set (trace ps (read level t_mark t_test s)). \<not> changed x) \<longrightarrow>
               isPressed (polls ps (read level t_mark t_test s)) = raw_sample level s))"
proof -
  note g = read_guard_nonneg [OF assms(1,2), of level t_mark t_test]
  have c: "changed (read level t_mark t_test s)
      \<longleftrightarrow> sint (debounce_time s) < uint (elapsed level t_mark t_test s)"
    using assms(3) by (simp add: read_changed g)
  have p: "pressed (read level t_mark t_test s)
      = (if sint (debounce_time s) < uint (elapsed level t_mark t_test s)
         then raw_sample level s else pressed s)"
    using assms(3) by (simp add: read_pressed g)
  have later: "isPressed (polls ps (read level t_mark t_test s)) = raw_sample level s"
    if "sint (debounce_time s) < uint (elapsed level t_mark t_test s)"
      and "\<forall>x \<in> set (trace ps (read level t_mark t_test s)). \<not> changed x" for ps
    using polls_keep_pressed [OF that(2)] p that(1) by (simp add: isPressed_def)
  show ?thesis
    using c p later by (simp add: isPressed_def)
qed

theorem read_confirms_after_interval_witness:
  "LENGTH(16) \<le> 32
   \<and> 0 \<le> sint (debounce_time demo_rising)
   \<and> raw_sample HIGH demo_rising \<noteq> pressed demo_rising
   \<and> sint (debounce_time demo_rising) < uint (elapsed HIGH 61 61 demo_rising)
   \<and> changed (read HIGH 61 61 demo_rising)
   \<and> pressed (read HIGH 61 61 demo_rising)
   \<and> isPressed (read HIGH 61 61 demo_rising)
   \<and> map changed (trace [(HIGH, 70, 70), (LOW, 80, 80), (LOW, 90, 90)]
                     (read HIGH 61 61 demo_rising)) = [False, False, False]
   \<and> isPressed (polls [(HIGH, 70, 70), (LOW, 80, 80), (LOW, 90, 90)]
        (read HIGH 61 61 demo_rising))"
  using read_confirms_after_interval
      [where level = HIGH and t_mark = 61 and t_test = 61 and s = demo_rising]
  by (simp add: demo_rising_eq read_simps read_eq isPressed_def)

text \<open>
  C1 as stated fails: the window started at time 10, the sample has stayed high and
  differs from \<open>pressed\<close>; at time 60 the elapsed time is 50, equal to \<open>debounce_time\<close>,
  and the poll sets \<open>changed\<close> to false and leaves \<open>pressed\<close> false.
\<close>

theorem read_at_exact_interval_counterexample:
  "uint (elapsed HIGH 60 60 demo_rising) = sint (debounce_time demo_rising)
   \<and> raw_sample HIGH demo_rising = last_state demo_rising
   \<and> raw_sample HIGH demo_rising \<noteq> pressed demo_rising
   \<and> \<not> changed (read HIGH 60 60 demo_rising)
   \<and> \<not> pressed (read HIGH 60 60 demo_rising)
   \<and> \<not> isPressed (read HIGH 60 60 demo_rising)"
  by (simp add: demo_rising_eq read_simps isPressed_def)

lemma releasedFor_iff_unsigned:
  "releasedFor ms now s
     \<longleftrightarrow> \<not> pressed s \<and> uint (int_to_ulong ms) \<le> uint (now - last_debounce_time s)"
  by (simp add: releasedFor_def word_le_def)

text \<open>
  C3, as the code has it. For a duration that is not negative, \<open>releasedFor\<close> returns
  true exactly when \<open>pressed\<close> is false and the time elapsed since
  \<open>last_debounce_time\<close>, the start of the last window and not the moment the release
  was confirmed, is at least the duration.
\<close>

theorem releasedFor_nonneg_iff:
  fixes s :: "'w::len word LoknoButton"
  assumes "LENGTH('w) \<le> 32" and "0 \<le> sint ms"
  shows "releasedFor ms now s
     \<longleftrightarrow> \<not> pressed s \<and> sint ms \<le> uint (now - last_debounce_time s)"
  using uint_int_to_ulong_nonneg [OF assms] by (simp add: releasedFor_iff_unsigned)

theorem releasedFor_nonneg_iff_witness:
  "LENGTH(16) \<le> 32 \<and> 0 \<le> sint (100 :: 16 word)
   \<and> \<not> pressed demo_released
   \<and> uint (120 - last_debounce_time demo_released) = 120
   \<and> releasedFor 100 120 demo_released
   \<and> uint (50 - last_debounce_time demo_released) = 50
   \<and> \<not> releasedFor 100 50 demo_released"
  using releasedFor_nonneg_iff [where ms = "100 :: 16 word" and now = 120 and s = demo_released]
    releasedFor_nonneg_iff [where ms = "100 :: 16 word" and now = 50 and s = demo_released]
  by (simp add: demo_released_eq)

text \<open>
  C3 as stated fails for a negative duration: the button is released and 50 ms have
  elapsed, which is at least \<open>- 1\<close>, yet \<open>releasedFor (- 1)\<close> returns false.
\<close>

theorem releasedFor_negative_counterexample:
  "\<not> pressed demo_released
   \<and> sint (- 1 :: 16 word) \<le> uint (50 - last_debounce_time demo_released)
   \<and> \<not> releasedFor (- 1) 50 demo_released"
  by (simp add: demo_released_eq releasedFor_iff_unsigned uint_int_to_ulong)

text \<open>
  C10. In \<open>releasedFor\<close> a negative duration \<open>d\<close> is compared as the unsigned value
  \<open>d + 2 ^ 32\<close>: for every elapsed time below that value the result is false.
\<close>

theorem releasedFor_negative_duration:
  fixes s :: "'w::len word LoknoButton"
  assumes "LENGTH('w) \<le> 32" and "sint d < 0"
    and "uint (now - last_debounce_time s) < sint d + 2 ^ 32"
  shows "uint (int_to_ulong d) = sint d + 2 ^ 32 \<and> \<not> releasedFor d now s"
  using uint_int_to_ulong_neg [OF assms(1,2)] assms(3)
  by (simp add: releasedFor_iff_unsigned)

theorem releasedFor_negative_duration_witness:
  "LENGTH(16) \<le> 32 \<and> sint (- 5 :: 16 word) < 0
   \<and> uint (4294967290 - last_debounce_time demo_released) < sint (- 5 :: 16 word) + 2 ^ 32
   \<and> uint (int_to_ulong (- 5 :: 16 word)) = 4294967291
   \<and> \<not> releasedFor (- 5) 4294967290 demo_released"
  using releasedFor_negative_duration
    [where d = "- 5 :: 16 word" and now = 4294967290 and s = demo_released]
  by (simp add: demo_released_eq)

lemma read_steady:
  assumes "raw_sample level s = pressed s"
  shows "\<not> changed (read level t_mark t_test s)"
    and "pressed (read level t_mark t_test s) = pressed s"
  using assms by (simp_all add: read_changed read_pressed)

text \<open>
  C6. From any state, and so from the state a confirming poll has left, polls whose
  samples all equal \<open>pressed\<close> each set \<open>changed\<close> to false and keep \<open>pressed\<close>,
  whatever the clock values are.
\<close>

theorem steady_polls_never_changed:
  assumes "\<forall>p \<in> set ps. raw_sample (fst p) s = pressed s"
  shows "\<forall>x \<in> set (trace ps s). \<not> changed x \<and> pressed x = pressed s"
  using assms
proof (induction ps arbitrary: s)
  case Nil
  show ?case by simp
next
  case (Cons p ps)
  obtain level t_mark t_test where p: "p = (level, t_mark, t_test)"
    by (cases p) auto
  let ?s' = "read level t_mark t_test s"
  from Cons.prems p have now: "raw_sample level s = pressed s"
    by simp
  have keep: "pressed ?s' = pressed s" and quiet: "\<not> changed ?s'"
    using now by (simp_all add: read_steady)
  have "\<forall>q \<in> set ps. raw_sample (fst q) ?s' = pressed ?s'"
    using Cons.prems by (simp add: raw_sample_read keep)
  then have "\<forall>x \<in> set (trace ps ?s'). \<not> changed x \<and> pressed x = pressed ?s'"
    by (rule Cons.IH)
  then show ?case
    using keep quiet by (simp add: p)
qed

theorem steady_polls_never_changed_witness:
  "changed demo_pressed \<and> pressed demo_pressed
   \<and> raw_sample HIGH demo_pressed = pressed demo_pressed
   \<and> map changed (trace [(HIGH, 0, 62), (HIGH, 0, 5000), (HIGH, 0, 5)] demo_pressed)
       = [False, False, False]
   \<and> map pressed (trace [(HIGH, 0, 62), (HIGH, 0, 5000), (HIGH, 0, 5)] demo_pressed)
       = [True, True, True]"
  using steady_polls_never_changed
    [where ps = "[(HIGH, 0, 62), (HIGH, 0, 5000), (HIGH, 0, 5)]" and s = demo_pressed]
  by (simp add: demo_pressed_eq read_simps read_eq)

lemma read_changes_pressed_only_after_interval:
  fixes s :: "'w::len word LoknoButton"
  assumes "LENGTH('w) \<le> 32"
    and "pressed (read level t_mark t_test s) \<noteq> pressed s"
  shows "sint (debounce_time s) < uint (elapsed level t_mark t_test s)"
proof -
  have g: "int_to_ulong (debounce_time s) < elapsed level t_mark t_test s"
    using assms(2) by (auto simp: read_pressed split: if_splits)
  show ?thesis
  proof (cases "0 \<le> sint (debounce_time s)")
    case True
    then show ?thesis
      using g read_guard_nonneg [OF assms(1) True] by simp
  next
    case False
    then show ?thesis
      using uint_ge_0 [of "elapsed level t_mark t_test s"] by linarith
  qed
qed

text \<open>
  C8. A call of a public method changes \<open>pressed\<close> only if it is \<open>begin\<close>, or \<open>read\<close>
  at a poll where the sample differs from \<open>pressed\<close> and the time elapsed since the
  start of the window is at least (indeed more than) \<open>debounce_time\<close>. The accessors
  \<open>isPressed\<close>, \<open>wasPressed\<close>, \<open>wasReleased\<close> and \<open>releasedFor\<close> leave the whole object
  as it was.
\<close>

theorem pressed_changes_only_in_read:
  fixes s :: "'w::len word LoknoButton"
  assumes "LENGTH('w) \<le> 32"
  shows "(pressed (exec c s) \<noteq> pressed s \<longrightarrow>
            (\<exists>level now. c = Call_begin level now)
            \<or> (\<exists>level t_mark t_test. c = Call_read level t_mark t_test
                 \<and> raw_sample level s \<noteq> pressed s
                 \<and> sint (debounce_time s) \<le> uint (elapsed level t_mark t_test s)
                 \<and> int_to_ulong (debounce_time s) < elapsed level t_mark t_test s))
    \<and> exec Call_isPressed s = s
    \<and> exec Call_wasPressed s = s
    \<and> exec Call_wasReleased s = s
    \<and> exec (Call_releasedFor ms now) s = s"
proof -
  have "(\<exists>level now. c = Call_begin level now)
      \<or> (\<exists>level t_mark t_test. c = Call_read level t_mark t_test
           \<and> raw_sample level s \<noteq> pressed s
           \<and> sint (debounce_time s) \<le> uint (elapsed level t_mark t_test s)
           \<and> int_to_ulong (debounce_time s) < elapsed level t_mark t_test s)"
    if diff: "pressed (exec c s) \<noteq> pressed s"
  proof (cases c)
    case (Call_read level t_mark t_test)
    with diff have d: "pressed (read level t_mark t_test s) \<noteq> pressed s"
      by simp
    have "sint (debounce_time s) < uint (elapsed level t_mark t_test s)"
      using assms d by (rule read_changes_pressed_only_after_interval)
    moreover have "raw_sample level s \<noteq> pressed s"
      and "int_to_ulong (debounce_time s) < elapsed level t_mark t_test s"
      using d by (auto simp: read_pressed split: if_splits)
    ultimately show ?thesis
      using Call_read by simp
  qed (use diff in simp_all)
  then show ?thesis
    by simp
qed

theorem pressed_changes_only_in_read_witness:
  "LENGTH(16) \<le> 32
   \<and> pressed (exec (Call_read HIGH 61 61) demo_rising) \<noteq> pressed demo_rising
   \<and> raw_sample HIGH demo_rising \<noteq> pressed demo_rising
   \<and> sint (debounce_time demo_rising) \<le> uint (elapsed HIGH 61 61 demo_rising)
   \<and> exec Call_isPressed demo_rising = demo_rising
   \<and> exec (Call_releasedFor 100 61) demo_rising = demo_rising"
  using pressed_changes_only_in_read
    [where c = "Call_read HIGH 61 61" and s = demo_rising and ms = 100 and now = 61]
  by (simp add: demo_rising_eq read_simps)

lemma counter_difference:
  fixes T0 T1 :: nat
  assumes "T0 \<le> T1" and "T1 - T0 < 2 ^ 32"
  shows "uint ((of_nat T1 :: ulong) - of_nat T0) = int (T1 - T0)"
proof -
  have "(of_nat T1 :: ulong) - of_nat T0 = of_nat (T1 - T0)"
    using assms(1) by (simp add: of_nat_diff)
  moreover have "unat (of_nat (T1 - T0) :: ulong) = T1 - T0"
    using assms(2) by (simp add: unat_of_nat)
  ultimately show ?thesis
    by (simp add: uint_nat del: of_nat_diff)
qed

text \<open>
  C9. Let the window have started at the true time \<open>T0\<close> and the clock be read at the
  true time \<open>T1\<close>, less than \<open>2 ^ 32\<close> ms later; the counter shows both modulo
  \<open>2 ^ 32\<close> and may have wrapped in between. Then the elapsed time \<open>read\<close> computes is
  \<open>T1 - T0\<close>, \<open>read\<close> confirms exactly when the sample differs from \<open>pressed\<close> and
  \<open>T1 - T0\<close> exceeds the interval, and \<open>releasedFor\<close> returns true exactly when
  \<open>pressed\<close> is false and \<open>T1 - T0\<close> is at least the duration; the interval and the
  duration are read as unsigned, which for a value that is not negative is the value
  itself.
\<close>

theorem elapsed_time_wraparound_safe:
  fixes s :: "'w::len word LoknoButton" and T0 T1 :: nat
  assumes "T0 \<le> T1" and "T1 - T0 < 2 ^ 32"
  shows "(window_start level t_mark s = of_nat T0 \<longrightarrow>
            uint (elapsed level t_mark (of_nat T1) s) = int (T1 - T0)
            \<and> (changed (read level t_mark (of_nat T1) s)
                 \<longleftrightarrow> raw_sample level s \<noteq> pressed s
                     \<and> uint (int_to_ulong (debounce_time s)) < int (T1 - T0))
            \<and> (LENGTH('w) \<le> 32 \<and> 0 \<le> sint (debounce_time s) \<longrightarrow>
                 (changed (read level t_mark (of_nat T1) s)
                   \<longleftrightarrow> raw_sample level s \<noteq> pressed s
                       \<and> sint (debounce_time s) < int (T1 - T0))))
    \<and> (last_debounce_time s = of_nat T0 \<longrightarrow>
            (releasedFor ms (of_nat T1) s
               \<longleftrightarrow> \<not> pressed s \<and> uint (int_to_ulong ms) \<le> int (T1 - T0))
            \<and> (LENGTH('w) \<le> 32 \<and> 0 \<le> sint ms \<longrightarrow>
                 (releasedFor ms (of_nat T1) s
                   \<longleftrightarrow> \<not> pressed s \<and> sint ms \<le> int (T1 - T0))))"
proof -
  note d = counter_difference [OF assms]
  have e: "uint (elapsed level t_mark (of_nat T1) s) = int (T1 - T0)"
    if "window_start level t_mark s = of_nat T0"
    using d that by (simp add: elapsed_def)
  have c: "changed (read level t_mark (of_nat T1) s)
      \<longleftrightarrow> raw_sample level s \<noteq> pressed s
          \<and> uint (int_to_ulong (debounce_time s)) < int (T1 - T0)"
    if "window_start level t_mark s = of_nat T0"
    using e [OF that] by (auto simp: read_changed word_less_def)
  have r: "releasedFor ms (of_nat T1) s
      \<longleftrightarrow> \<not> pressed s \<and> uint (int_to_ulong ms) \<le> int (T1 - T0)"
    if "last_debounce_time s = of_nat T0"
    using d that by (simp add: releasedFor_iff_unsigned)
  have c': "changed (read level t_mark (of_nat T1) s)
      \<longleftrightarrow> raw_sample level s \<noteq> pressed s \<and> sint (debounce_time s) < int (T1 - T0)"
    if "window_start level t_mark s = of_nat T0"
      and "LENGTH('w) \<le> 32" and "0 \<le> sint (debounce_time s)"
    using c [OF that(1)] uint_int_to_ulong_nonneg [OF that(2,3)] by simp
  have r': "releasedFor ms (of_nat T1) s \<longleftrightarrow> \<not> pressed s \<and> sint ms \<le> int (T1 - T0)"
    if "last_debounce_time s = of_nat T0" and "LENGTH('w) \<le> 32" and "0 \<le> sint ms"
    using r [OF that(1)] uint_int_to_ulong_nonneg [OF that(2,3)] by simp
  show ?thesis
    using e c c' r r' by blast
qed

theorem elapsed_time_wraparound_safe_witness:
  "(4294967286 :: nat) \<le> 4294967356
   \<and> (4294967356 :: nat) - 4294967286 < 2 ^ 32
   \<and> (of_nat 4294967356 :: ulong) = 60
   \<and> window_start HIGH 60 demo_wrap_rising = of_nat 4294967286
   \<and> last_debounce_time demo_wrap_rising = of_nat 4294967286
   \<and> uint (elapsed HIGH 60 (of_nat 4294967356) demo_wrap_rising) = 70
   \<and> changed (read HIGH 60 (of_nat 4294967356) demo_wrap_rising)
   \<and> releasedFor 50 (of_nat 4294967356) demo_wrap_rising
   \<and> \<not> releasedFor 100 (of_nat 4294967356) demo_wrap_rising"
  using elapsed_time_wraparound_safe
      [where ?T0.0 = 4294967286 and ?T1.0 = 4294967356 and level = HIGH and t_mark = 60
         and s = demo_wrap_rising and ms = 50]
    elapsed_time_wraparound_safe
      [where ?T0.0 = 4294967286 and ?T1.0 = 4294967356 and level = HIGH and t_mark = 60
         and s = demo_wrap_rising and ms = 100]
  by (simp add: demo_wrap_rising_eq window_start_def raw_sample_def int_to_ulong_def)

end
